theory Spec2Isabelle
  imports Complex_Main
begin

section \<open>Data model (shared/schema.ts)\<close>

text \<open>
  The geometry engine of the land-area calculator lives in
  \<^verbatim>\<open>client/src/lib/utils/area.ts\<close>; its data types are \<^verbatim>\<open>Point\<close> and
  \<^verbatim>\<open>Line\<close> of \<^verbatim>\<open>shared/schema.ts\<close>.

  A JavaScript \<^verbatim>\<open>number\<close> is modelled as a mathematical \<^typ>\<open>real\<close>:
  arithmetic is exact. The rounding of IEEE 754 doubles, overflow to \<^verbatim>\<open>Infinity\<close> and
  \<^verbatim>\<open>NaN\<close> are not modelled. The theorems of this development are therefore
  confined to what does not depend on how the arithmetic rounds: which vertices are
  produced and in which order, which early exit returns 0, which argument is never read,
  and that every division is executed with a divisor that was tested to be nonzero.
  A division by zero is kept visible as \<open>None\<close> (see \<open>js_div\<close>). Where a statement
  mentions a quotient or a distance, as the ratios of claim C6 do, the value is that of
  the exact model.

  \<^verbatim>\<open>calculatePolygonArea\<close> and \<^verbatim>\<open>isClosedPolygon\<close> are not modelled: beyond their
  guard on the number of points, what they return is a rounded sum or the comparison of a
  rounded square root with 5, and equalities between such values (the closed form of the
  area, its invariance under reordering, the threshold of the rectangle shortcut, the mean
  ratio) hold in exact arithmetic and fail on doubles.

  The fields \<^verbatim>\<open>id\<close> and \<^verbatim>\<open>length\<close> of a line are called \<open>id_line\<close> and
  \<open>length_line\<close>, because \<open>id\<close> and \<open>length\<close> are constants of HOL.
\<close>

record Point =
  x :: real
  y :: real

record Line =
  id_line :: real
  startPoint :: Point
  endPoint :: Point
  length_line :: real

section \<open>Numeric helpers\<close>

text \<open>
  \<^verbatim>\<open>a / b\<close> in JavaScript is \<^verbatim>\<open>Infinity\<close>, \<^verbatim>\<open>-Infinity\<close> or \<^verbatim>\<open>NaN\<close>
  when \<^verbatim>\<open>b\<close> is zero. None of these is a real number, so the division of the model
  answers \<open>None\<close> there.
\<close>

definition js_div :: "real \<Rightarrow> real \<Rightarrow> real option" where
  "js_div a b = (if b = 0 then None else Some (a / b))"

text \<open>
  \<^verbatim>\<open>
  export function calculateDistance(point1: Point, point2: Point): number {
    const dx = point2.x - point1.x;
    const dy = point2.y - point1.y;
    return Math.sqrt(dx * dx + dy * dy);
  }
  \<close>
\<close>

definition calculateDistance :: "Point \<Rightarrow> Point \<Rightarrow> real" where
  "calculateDistance point1 point2 =
     (let dx = x point2 - x point1;
          dy = y point2 - y point1
      in sqrt (dx * dx + dy * dy))"

section \<open>scaleAreaToRealWorld\<close>

text \<open>
  \<^verbatim>\<open>
  export function scaleAreaToRealWorld(pixelArea: number, lines: Line[], scale: number = 1): number {
    if (lines.length < 3) return 0;
    if (lines.length === 4) {
      const lengthA = lines[0].length;
      const lengthB = lines[1].length;
      const lengthC = lines[2].length;
      const lengthD = lines[3].length;
      const isRectangle = Math.abs(lengthA - lengthC) < 0.1 && Math.abs(lengthB - lengthD) < 0.1;
      if (isRectangle) {
        return lengthA * lengthB;
      }
    }
    let pixelToMeterRatios: number[] = [];
    for (const line of lines) {
      const pixelLength = calculateDistance(line.startPoint, line.endPoint);
      if (pixelLength > 0) {
        pixelToMeterRatios.push(line.length / pixelLength);
      }
    }
    if (pixelToMeterRatios.length === 0) return 0;
    const avgRatio = pixelToMeterRatios.reduce((sum, ratio) => sum + ratio, 0) / pixelToMeterRatios.length;
    return pixelArea * avgRatio * avgRatio;
  }
  \<close>
  \<open>isRectangle\<close> is the local constant of that name; it is only evaluated on four lines.
  \<open>ratio_loop\<close> is the \<^verbatim>\<open>for ... of\<close> loop, with the array it pushes to as
  accumulator. The result is \<open>None\<close> exactly when a division by zero is executed.
  The default value 1 of \<^verbatim>\<open>scale\<close> is the caller's business: the model always
  receives the argument.
\<close>

definition isRectangle :: "Line list \<Rightarrow> bool" where
  "isRectangle lines =
     (let lengthA = length_line (lines ! 0);
          lengthB = length_line (lines ! 1);
          lengthC = length_line (lines ! 2);
          lengthD = length_line (lines ! 3)
      in \<bar>lengthA - lengthC\<bar> < 0.1 \<and> \<bar>lengthB - lengthD\<bar> < 0.1)"

fun ratio_loop :: "Line list \<Rightarrow> real list \<Rightarrow> real list option" where
  "ratio_loop [] pixelToMeterRatios = Some pixelToMeterRatios"
| "ratio_loop (line # rest) pixelToMeterRatios =
     (let pixelLength = calculateDistance (startPoint line) (endPoint line) in
      if pixelLength > 0 then
        (case js_div (length_line line) pixelLength of
           None \<Rightarrow> None
         | Some ratio \<Rightarrow> ratio_loop rest (pixelToMeterRatios @ [ratio]))
      else ratio_loop rest pixelToMeterRatios)"

definition scaleAreaToRealWorld :: "real \<Rightarrow> Line list \<Rightarrow> real \<Rightarrow> real option" where
  "scaleAreaToRealWorld pixelArea lines scale =
     (if length lines < 3 then Some 0
      else if length lines = 4 \<and> isRectangle lines then
        Some (length_line (lines ! 0) * length_line (lines ! 1))
      else
        (case ratio_loop lines [] of
           None \<Rightarrow> None
         | Some pixelToMeterRatios \<Rightarrow>
             if length pixelToMeterRatios = 0 then Some 0
             else
               (case js_div (foldl (+) 0 pixelToMeterRatios) (real (length pixelToMeterRatios)) of
                  None \<Rightarrow> None
                | Some avgRatio \<Rightarrow> Some (pixelArea * avgRatio * avgRatio))))"

section \<open>extractVerticesFromLines\<close>

text \<open>
  \<^verbatim>\<open>
  export function extractVerticesFromLines(lines: Line[]): Point[] {
    if (lines.length === 0) return [];
    const vertices: Point[] = [lines[0].startPoint];
    for (const line of lines) {
      vertices.push(line.endPoint);
    }
    if (lines.length >= 3) {
      const firstPoint = vertices[0];
      const lastPoint = vertices[vertices.length - 1];
      if (firstPoint.x !== lastPoint.x || firstPoint.y !== lastPoint.y) {
        vertices.push(firstPoint);
      }
    }
    return vertices;
  }
  \<close>
  \<open>push_endPoints\<close> is the loop, with the array \<^verbatim>\<open>vertices\<close> as accumulator.
\<close>

fun push_endPoints :: "Line list \<Rightarrow> Point list \<Rightarrow> Point list" where
  "push_endPoints [] vertices = vertices"
| "push_endPoints (line # rest) vertices = push_endPoints rest (vertices @ [endPoint line])"

definition extractVerticesFromLines :: "Line list \<Rightarrow> Point list" where
  "extractVerticesFromLines lines =
     (if length lines = 0 then []
      else
        (let vertices = push_endPoints lines [startPoint (lines ! 0)] in
         if length lines \<ge> 3 then
           (let firstPoint = vertices ! 0;
                lastPoint = vertices ! (length vertices - 1)
            in if x firstPoint \<noteq> x lastPoint \<or> y firstPoint \<noteq> y lastPoint
               then vertices @ [firstPoint]
               else vertices)
         else vertices))"

section \<open>Auxiliary facts\<close>

subsection \<open>Distances and points\<close>

lemma calculateDistance_nonneg: "0 \<le> calculateDistance p q"
  by (simp add: calculateDistance_def Let_def)

lemma calculateDistance_zero_iff:
  fixes p q :: Point
  shows "calculateDistance p q = 0 \<longleftrightarrow> p = q"
  by (auto simp add: calculateDistance_def Let_def sum_power2_eq_zero_iff power2_eq_square[symmetric])

lemma point_neq_iff:
  fixes p q :: Point
  shows "(x p \<noteq> x q \<or> y p \<noteq> y q) \<longleftrightarrow> p \<noteq> q"
  by auto

subsection \<open>The loops in closed form\<close>

lemma ratio_loop_closed:
  "ratio_loop lines acc =
     Some (acc @ map (\<lambda>l. length_line l / calculateDistance (startPoint l) (endPoint l))
                   (filter (\<lambda>l. calculateDistance (startPoint l) (endPoint l) \<noteq> 0) lines))"
proof (induction lines arbitrary: acc)
  case Nil
  show ?case by simp
next
  case (Cons l ls)
  have "0 \<le> calculateDistance (startPoint l) (endPoint l)"
    by (rule calculateDistance_nonneg)
  then show ?case
    using Cons.IH by (auto simp add: Let_def js_div_def)
qed

lemma foldl_plus_sum_list: "foldl (+) (a::real) rs = a + sum_list rs"
  by (induction rs arbitrary: a) simp_all

lemma push_endPoints_append: "push_endPoints lines acc = acc @ map endPoint lines"
  by (induction lines arbitrary: acc) simp_all

lemma extractVerticesFromLines_closed:
  assumes "lines \<noteq> []"
  shows "extractVerticesFromLines lines =
     (startPoint (lines ! 0) # map endPoint lines) @
     (if 3 \<le> length lines \<and> startPoint (lines ! 0) \<noteq> endPoint (last lines)
      then [startPoint (lines ! 0)] else [])"
proof -
  let ?vertices = "startPoint (lines ! 0) # map endPoint lines"
  have pushed: "push_endPoints lines [startPoint (lines ! 0)] = ?vertices"
    by (simp add: push_endPoints_append)
  have "?vertices ! (length ?vertices - 1) = last ?vertices"
    by (rule last_conv_nth [symmetric]) simp
  also have "\<dots> = endPoint (last lines)"
    using assms by (simp add: last_map)
  finally have lastPoint: "?vertices ! (length ?vertices - 1) = endPoint (last lines)" .
  have firstPoint: "?vertices ! 0 = startPoint (lines ! 0)"
    by simp
  show ?thesis
    unfolding extractVerticesFromLines_def pushed Let_def lastPoint firstPoint point_neq_iff
    using assms by simp
qed

lemma isRectangle_iff:
  "isRectangle lines \<longleftrightarrow>
     \<bar>length_line (lines ! 0) - length_line (lines ! 2)\<bar> < 0.1 \<and>
     \<bar>length_line (lines ! 1) - length_line (lines ! 3)\<bar> < 0.1"
  by (simp add: isRectangle_def Let_def)

lemma scale_general_path:
  assumes "3 \<le> length lines" and "\<not> (length lines = 4 \<and> isRectangle lines)"
  shows "scaleAreaToRealWorld pixelArea lines scale =
     (let ratios = map (\<lambda>l. length_line l / calculateDistance (startPoint l) (endPoint l))
                     (filter (\<lambda>l. calculateDistance (startPoint l) (endPoint l) \<noteq> 0) lines)
      in if ratios = [] then Some 0
         else Some (pixelArea * (sum_list ratios / real (length ratios)) * (sum_list ratios / real (length ratios))))"
  using assms
  by (auto simp add: scaleAreaToRealWorld_def ratio_loop_closed js_div_def foldl_plus_sum_list Let_def)

section \<open>Closing the vertex loop\<close>

text \<open>
  Claim C4, as amended. The guard of the closure step is on the number of segments, not on
  the number of vertices: for a non-empty segment sequence, \<open>extractVerticesFromLines\<close>
  appends a copy of the first vertex exactly when there are at least three segments (four
  vertices before closing) and the first vertex differs from the last one in a coordinate.
  With fewer than three segments, or when the first vertex equals the last, nothing is
  appended.
\<close>

theorem extract_vertices_closure:
  "lines \<noteq> [] \<Longrightarrow>
   extractVerticesFromLines lines =
     (startPoint (lines ! 0) # map endPoint lines) @
     (if 3 \<le> length lines \<and> startPoint (lines ! 0) \<noteq> endPoint (last lines)
      then [startPoint (lines ! 0)] else [])"
  by (rule extractVerticesFromLines_closed)

text \<open>
  Claim C4, as stated, fails on two segments. They produce three vertices, the first
  differs from the last, and yet the output is those three vertices, with no copy of the
  first at the end.
\<close>

theorem extract_vertices_two_segments_counterexample:
  "extractVerticesFromLines
     [\<lparr>id_line = 1, startPoint = \<lparr>x = 0, y = 0\<rparr>, endPoint = \<lparr>x = 1, y = 0\<rparr>, length_line = 10\<rparr>,
      \<lparr>id_line = 2, startPoint = \<lparr>x = 1, y = 0\<rparr>, endPoint = \<lparr>x = 1, y = 1\<rparr>, length_line = 10\<rparr>]
   = [\<lparr>x = 0, y = 0\<rparr>, \<lparr>x = 1, y = 0\<rparr>, \<lparr>x = 1, y = 1\<rparr>]
   \<and> 3 \<le> length [\<lparr>x = 0, y = 0\<rparr>, \<lparr>x = 1, y = 0\<rparr>, \<lparr>x = 1, y = (1::real)\<rparr>]
   \<and> \<lparr>x = 0, y = 0\<rparr> \<noteq> \<lparr>x = 1, y = (1::real)\<rparr>"
  by (simp add: extractVerticesFromLines_def)

text \<open>
  Three segments of an open square: the start point is appended.
\<close>

theorem extract_vertices_closure_witness:
  "extractVerticesFromLines
     [\<lparr>id_line = 1, startPoint = \<lparr>x = 0, y = 0\<rparr>, endPoint = \<lparr>x = 10, y = 0\<rparr>, length_line = 10\<rparr>,
      \<lparr>id_line = 2, startPoint = \<lparr>x = 10, y = 0\<rparr>, endPoint = \<lparr>x = 10, y = 10\<rparr>, length_line = 10\<rparr>,
      \<lparr>id_line = 3, startPoint = \<lparr>x = 10, y = 10\<rparr>, endPoint = \<lparr>x = 0, y = 10\<rparr>, length_line = 10\<rparr>]
   = [\<lparr>x = 0, y = 0\<rparr>, \<lparr>x = 10, y = 0\<rparr>, \<lparr>x = 10, y = 10\<rparr>, \<lparr>x = 0, y = 10\<rparr>, \<lparr>x = 0, y = 0\<rparr>]"
  by (subst extract_vertices_closure) simp_all

section \<open>The vertex chain\<close>

text \<open>
  Claim C5. \<open>extractVerticesFromLines\<close> returns the empty sequence on the empty
  sequence. On a non-empty one, the output begins with the start point of the first
  segment, followed by the end point of every segment, in order; whatever the closure
  step appends comes after these \<open>length lines + 1\<close> vertices.
\<close>

theorem extract_vertices_chain:
  "extractVerticesFromLines [] = []
   \<and> (lines \<noteq> [] \<longrightarrow>
        take (Suc (length lines)) (extractVerticesFromLines lines)
          = startPoint (lines ! 0) # map endPoint lines)"
  by (simp add: extractVerticesFromLines_closed) (simp add: extractVerticesFromLines_def)

text \<open>
  Two segments give their three points.
\<close>

theorem extract_vertices_chain_witness:
  "take 3 (extractVerticesFromLines
     [\<lparr>id_line = 1, startPoint = \<lparr>x = 0, y = 0\<rparr>, endPoint = \<lparr>x = 1, y = 0\<rparr>, length_line = 10\<rparr>,
      \<lparr>id_line = 2, startPoint = \<lparr>x = 1, y = 0\<rparr>, endPoint = \<lparr>x = 1, y = 1\<rparr>, length_line = 10\<rparr>])
   = [\<lparr>x = 0, y = 0\<rparr>, \<lparr>x = 1, y = 0\<rparr>, \<lparr>x = 1, y = 1\<rparr>]"
  using extract_vertices_chain
    [of "[\<lparr>id_line = 1, startPoint = \<lparr>x = 0, y = 0\<rparr>, endPoint = \<lparr>x = 1, y = 0\<rparr>, length_line = 10\<rparr>,
          \<lparr>id_line = 2, startPoint = \<lparr>x = 1, y = 0\<rparr>, endPoint = \<lparr>x = 1, y = 1\<rparr>, length_line = 10\<rparr>]"]
  by (simp add: numeral_3_eq_3)

section \<open>Segments of pixel distance zero\<close>

text \<open>
  Claim C6. The ratios collected by the loop are those of exactly the segments whose start
  and end points differ; a segment whose end points coincide is skipped, so that no ratio
  is a division by zero. \<open>scaleAreaToRealWorld\<close> returns a number on every input (in the
  model: never \<open>None\<close>, neither from a ratio nor from the mean). With at least three
  segments, no rectangle shortcut and every segment of pixel distance zero, the result
  is 0.
\<close>

theorem zero_length_segments_excluded:
  "ratio_loop lines [] =
     Some (map (\<lambda>l. length_line l / calculateDistance (startPoint l) (endPoint l))
             (filter (\<lambda>l. startPoint l \<noteq> endPoint l) lines))
   \<and> (\<exists>r. scaleAreaToRealWorld pixelArea lines scale = Some r)
   \<and> (3 \<le> length lines
        \<and> (length lines \<noteq> 4
             \<or> 0.1 \<le> \<bar>length_line (lines ! 0) - length_line (lines ! 2)\<bar>
             \<or> 0.1 \<le> \<bar>length_line (lines ! 1) - length_line (lines ! 3)\<bar>)
        \<and> (\<forall>l \<in> set lines. startPoint l = endPoint l)
      \<longrightarrow> scaleAreaToRealWorld pixelArea lines scale = Some 0)"
proof (intro conjI impI)
  show "ratio_loop lines [] =
     Some (map (\<lambda>l. length_line l / calculateDistance (startPoint l) (endPoint l))
             (filter (\<lambda>l. startPoint l \<noteq> endPoint l) lines))"
    by (simp add: ratio_loop_closed calculateDistance_zero_iff)
next
  show "\<exists>r. scaleAreaToRealWorld pixelArea lines scale = Some r"
    by (simp add: scaleAreaToRealWorld_def ratio_loop_closed js_div_def)
next
  assume h: "3 \<le> length lines
        \<and> (length lines \<noteq> 4
             \<or> 0.1 \<le> \<bar>length_line (lines ! 0) - length_line (lines ! 2)\<bar>
             \<or> 0.1 \<le> \<bar>length_line (lines ! 1) - length_line (lines ! 3)\<bar>)
        \<and> (\<forall>l \<in> set lines. startPoint l = endPoint l)"
  then have no_shortcut: "\<not> (length lines = 4 \<and> isRectangle lines)"
    by (auto simp add: isRectangle_iff)
  from h have "filter (\<lambda>l. calculateDistance (startPoint l) (endPoint l) \<noteq> 0) lines = []"
    by (simp add: filter_empty_conv calculateDistance_zero_iff)
  with h show "scaleAreaToRealWorld pixelArea lines scale = Some 0"
    by (simp add: scale_general_path [OF _ no_shortcut])
qed

text \<open>
  Three segments that are points.
\<close>

theorem zero_length_segments_excluded_witness:
  "scaleAreaToRealWorld 2500
     [\<lparr>id_line = 1, startPoint = \<lparr>x = 5, y = 5\<rparr>, endPoint = \<lparr>x = 5, y = 5\<rparr>, length_line = 10\<rparr>,
      \<lparr>id_line = 2, startPoint = \<lparr>x = 5, y = 5\<rparr>, endPoint = \<lparr>x = 5, y = 5\<rparr>, length_line = 10\<rparr>,
      \<lparr>id_line = 3, startPoint = \<lparr>x = 5, y = 5\<rparr>, endPoint = \<lparr>x = 5, y = 5\<rparr>, length_line = 10\<rparr>]
     100 = Some 0"
  using zero_length_segments_excluded
    [of "[\<lparr>id_line = 1, startPoint = \<lparr>x = 5, y = 5\<rparr>, endPoint = \<lparr>x = 5, y = 5\<rparr>, length_line = 10\<rparr>,
          \<lparr>id_line = 2, startPoint = \<lparr>x = 5, y = 5\<rparr>, endPoint = \<lparr>x = 5, y = 5\<rparr>, length_line = 10\<rparr>,
          \<lparr>id_line = 3, startPoint = \<lparr>x = 5, y = 5\<rparr>, endPoint = \<lparr>x = 5, y = 5\<rparr>, length_line = 10\<rparr>]"
        2500 100]
  by simp

section \<open>Fewer than three segments\<close>

text \<open>
  Claim C7. For every pixel area, every scale and every sequence of fewer than three
  segments, \<open>scaleAreaToRealWorld\<close> returns 0, whatever the coordinates and the declared
  lengths of the segments are.
\<close>

theorem scale_fewer_than_three_is_zero:
  "length lines < 3 \<Longrightarrow> scaleAreaToRealWorld pixelArea lines scale = Some 0"
  by (simp add: scaleAreaToRealWorld_def)

text \<open>
  Two segments.
\<close>

theorem scale_fewer_than_three_is_zero_witness:
  "scaleAreaToRealWorld 2500
     [\<lparr>id_line = 1, startPoint = \<lparr>x = 0, y = 0\<rparr>, endPoint = \<lparr>x = 100, y = 0\<rparr>, length_line = 10\<rparr>,
      \<lparr>id_line = 2, startPoint = \<lparr>x = 100, y = 0\<rparr>, endPoint = \<lparr>x = 0, y = 0\<rparr>, length_line = 10\<rparr>]
     100 = Some 0"
  by (rule scale_fewer_than_three_is_zero) simp

section \<open>The scale parameter\<close>

text \<open>
  Claim C9. The \<^verbatim>\<open>scale\<close> argument never affects the result of
  \<open>scaleAreaToRealWorld\<close>.
\<close>

theorem scale_parameter_unused:
  "scaleAreaToRealWorld pixelArea lines s1 = scaleAreaToRealWorld pixelArea lines s2"
  by (simp add: scaleAreaToRealWorld_def)

text \<open>
  Scale 1 against scale 100.
\<close>

theorem scale_parameter_unused_witness:
  "scaleAreaToRealWorld 2500
     [\<lparr>id_line = 1, startPoint = \<lparr>x = 0, y = 0\<rparr>, endPoint = \<lparr>x = 30, y = 0\<rparr>, length_line = 3\<rparr>,
      \<lparr>id_line = 2, startPoint = \<lparr>x = 30, y = 0\<rparr>, endPoint = \<lparr>x = 30, y = 40\<rparr>, length_line = 4\<rparr>,
      \<lparr>id_line = 3, startPoint = \<lparr>x = 30, y = 40\<rparr>, endPoint = \<lparr>x = 0, y = 0\<rparr>, length_line = 5\<rparr>]
     1
   = scaleAreaToRealWorld 2500
     [\<lparr>id_line = 1, startPoint = \<lparr>x = 0, y = 0\<rparr>, endPoint = \<lparr>x = 30, y = 0\<rparr>, length_line = 3\<rparr>,
      \<lparr>id_line = 2, startPoint = \<lparr>x = 30, y = 0\<rparr>, endPoint = \<lparr>x = 30, y = 40\<rparr>, length_line = 4\<rparr>,
      \<lparr>id_line = 3, startPoint = \<lparr>x = 30, y = 40\<rparr>, endPoint = \<lparr>x = 0, y = 0\<rparr>, length_line = 5\<rparr>]
     100"
  by (rule scale_parameter_unused)

end
